theory Spec2Isabelle
  imports Main
begin

section \<open>Calendar dates\<close>

text \<open>
  A Python \<open>datetime.date\<close> is modelled by its day number: the number of days since
  1970-01-01 in the proleptic Gregorian calendar. Comparison of dates is comparison of
  day numbers. The conversions between day numbers and (year, month, day) triples are
  only needed to render dates (\<open>strftime\<close>, \<open>isoformat\<close>) and to write examples.
\<close>

type_synonym date = int

definition days_from_civil :: "int \<Rightarrow> int \<Rightarrow> int \<Rightarrow> date" where
  "days_from_civil y m d =
     (let y' = (if m \<le> 2 then y - 1 else y);
          era = y' div 400;
          yoe = y' - era * 400;
          doy = (153 * (if m > 2 then m - 3 else m + 9) + 2) div 5 + d - 1;
          doe = yoe * 365 + yoe div 4 - yoe div 100 + doy
      in era * 146097 + doe - 719468)"

definition civil_from_days :: "date \<Rightarrow> int \<times> int \<times> int" where
  "civil_from_days z0 =
     (let z = z0 + 719468;
          era = z div 146097;
          doe = z - era * 146097;
          yoe = (doe - doe div 1460 + doe div 36524 - doe div 146096) div 365;
          doy = doe - (365 * yoe + yoe div 4 - yoe div 100);
          mp = (5 * doy + 2) div 153;
          d = doy - (153 * mp + 2) div 5 + 1;
          m = (if mp < 10 then mp + 3 else mp - 9);
          y = yoe + era * 400
      in (if m \<le> 2 then y + 1 else y, m, d))"

fun digit_char :: "nat \<Rightarrow> char" where
  "digit_char n = char_of (48 + n mod 10)"

fun str_nat :: "nat \<Rightarrow> string" where
  "str_nat n = (if n < 10 then [digit_char n] else str_nat (n div 10) @ [digit_char n])"

declare str_nat.simps [simp del]

definition zero_pad :: "nat \<Rightarrow> string \<Rightarrow> string" where
  "zero_pad w s = replicate (w - length s) (CHR ''0'') @ s"

definition weekday_name :: "date \<Rightarrow> string" where
  "weekday_name z =
     [''Monday'', ''Tuesday'', ''Wednesday'', ''Thursday'', ''Friday'', ''Saturday'', ''Sunday'']
       ! nat ((z + 3) mod 7)"

definition month_name :: "int \<Rightarrow> string" where
  "month_name m =
     [''January'', ''February'', ''March'', ''April'', ''May'', ''June'', ''July'',
      ''August'', ''September'', ''October'', ''November'', ''December'']
       ! nat (m - 1)"

text \<open>\<open>d.strftime('%A, %d %B, %Y')\<close>, in the C locale.\<close>

definition strftime_long :: "date \<Rightarrow> string" where
  "strftime_long z =
     (case civil_from_days z of (y, m, d) \<Rightarrow>
        weekday_name z @ '', '' @ zero_pad 2 (str_nat (nat d)) @ '' '' @ month_name m
          @ '', '' @ str_nat (nat y))"

text \<open>\<open>d.isoformat()\<close>, which is also \<open>str(d)\<close>.\<close>

definition isoformat :: "date \<Rightarrow> string" where
  "isoformat z =
     (case civil_from_days z of (y, m, d) \<Rightarrow>
        zero_pad 4 (str_nat (nat y)) @ ''-'' @ zero_pad 2 (str_nat (nat m)) @ ''-''
          @ zero_pad 2 (str_nat (nat d)))"

section \<open>Documents and service state\<close>

text \<open>
  The \<open>Booking\<close> document of \<open>schemas.py\<close>. The collection is the list of its documents
  in insertion order; \<open>bid\<close> is the document's id.
\<close>

record booking =
  bid :: nat
  user :: "string option"
  resource :: string
  start_date :: date
  end_date :: date

text \<open>
  The \<open>data\<close> dictionary passed to \<open>book_resource\<close>. The two date entries are strings in
  the source; here each is the date that \<open>datetime.strptime(_, "%Y-%m-%d").date()\<close> yields,
  or \<open>None\<close> for a string that \<open>strptime\<close> rejects.
\<close>

record booking_data =
  data_resource :: string
  data_start_date :: "date option"
  data_end_date :: "date option"

text \<open>The \<open>Services\<close> instance: its only attribute is the private \<open>__user_id\<close>.\<close>

record services =
  user_id :: "string option"

definition Services_init :: services where
  "Services_init = \<lparr>user_id = None\<rparr>"

datatype error =
    ValueError
  | Exception string
  | RuntimeError string
  | ValidationError

datatype response =
    Success string nat
  | Conflicted string "(string \<times> string) list"

section \<open>Session lookup\<close>

text \<open>
  \<open>Services.get_user_from_session_id\<close> (services.py, lines 86 to 102).
  \<open>r\<close> is the Redis store, whose values are byte strings, and \<open>users\<close> the user collection
  keyed by object id. Two library functions are parameters: \<open>decode\<close> is
  \<open>bytes.decode('utf-8')\<close>, which yields \<open>None\<close> where Python raises \<open>UnicodeDecodeError\<close>,
  and \<open>ObjectId\<close> is the constructor \<open>bson.ObjectId\<close>, which yields \<open>None\<close> where the
  library raises \<open>InvalidId\<close>. Every exception of the body is re-raised as a \<open>RuntimeError\<close>,
  whose message is kept up to the session id. A failing \<open>decode\<close> raises before the
  assignment to \<open>__user_id\<close>; the assignment happens before the user document is fetched.
\<close>

definition get_user_from_session_id ::
  "(string \<Rightarrow> string option) \<Rightarrow> (string \<Rightarrow> 'oid option) \<Rightarrow> (string \<rightharpoonup> string)
     \<Rightarrow> ('oid \<rightharpoonup> 'u) \<Rightarrow> services \<Rightarrow> string \<Rightarrow> (error + 'u option) \<times> services" where
  "get_user_from_session_id decode ObjectId r users self session_id =
     (case r (''auth_'' @ session_id) of
        None \<Rightarrow> (Inr None, self)
      | Some user_id_bytes \<Rightarrow>
          if user_id_bytes = [] then (Inr None, self)
          else
            (case decode user_id_bytes of
               None \<Rightarrow>
                 (Inl (RuntimeError (''Error getting user from session id '' @ session_id)), self)
             | Some uid \<Rightarrow>
                 let self' = self\<lparr>user_id := Some uid\<rparr>
                 in (case ObjectId uid of
                       None \<Rightarrow>
                         (Inl (RuntimeError (''Error getting user from session id '' @ session_id)),
                          self')
                     | Some oid \<Rightarrow> (Inr (users oid), self'))))"

section \<open>Booking\<close>

text \<open>
  One element of \<open>json.loads(booking.to_json())\<close>: each date field is rendered as
  \<open>{"$date": ms}\<close>, the milliseconds since the epoch of that date's midnight, UTC.
\<close>

record booking_json =
  start_date_ms :: int
  end_date_ms :: int

definition to_json :: "booking \<Rightarrow> booking_json" where
  "to_json b = \<lparr>start_date_ms = start_date b * 86400000, end_date_ms = end_date b * 86400000\<rparr>"

text \<open>
  \<open>datetime.fromtimestamp(ms / 1000).date()\<close>: the local calendar date of the instant.
  \<open>utc_offset\<close> is the offset of the process's local time zone from UTC, in seconds.
\<close>

definition fromtimestamp_date :: "int \<Rightarrow> int \<Rightarrow> date" where
  "fromtimestamp_date utc_offset ms = (ms div 1000 + utc_offset) div 86400"

text \<open>
  The query \<open>Booking.objects(resource = _, start_date__gte = today).order_by('start_date')\<close>.
  Documents with equal start dates stay in insertion order.
\<close>

definition open_reservations :: "date \<Rightarrow> string \<Rightarrow> booking list \<Rightarrow> booking list" where
  "open_reservations today res db =
     sort_key start_date [b \<leftarrow> db. resource b = res \<and> today \<le> start_date b]"

text \<open>
  The body of the loop \<open>for i in range(len(blocked))\<close> (services.py, lines 192 to 213),
  on the pair (conflicts, available_dates). The index \<open>i + 1\<close> is read only when \<open>i\<close> is
  not the last index, so no read is out of range.
\<close>

definition walk_step ::
  "int \<Rightarrow> date \<Rightarrow> date \<Rightarrow> booking_json list \<Rightarrow> nat
     \<Rightarrow> nat \<times> (string \<times> string) list \<Rightarrow> nat \<times> (string \<times> string) list" where
  "walk_step utc_offset new_start new_end blocked i acc =
     (case acc of (conflicts, available_dates) \<Rightarrow>
        let size' = length blocked;
            curr_start = fromtimestamp_date utc_offset (start_date_ms (blocked ! i));
            curr_end = fromtimestamp_date utc_offset (end_date_ms (blocked ! i));
            conflicts' =
              (if curr_start \<le> new_start \<and> new_start < curr_end
                  \<or> curr_start \<le> new_end \<and> new_end < curr_end
               then conflicts + 1 else conflicts)
        in if size' - i = 1 then (conflicts', available_dates)
           else
             let next_start = fromtimestamp_date utc_offset (start_date_ms (blocked ! (i + 1)))
             in if curr_end \<le> next_start
                then (conflicts', available_dates @ [(strftime_long curr_end, strftime_long next_start)])
                else (conflicts', available_dates))"

definition walk ::
  "int \<Rightarrow> date \<Rightarrow> date \<Rightarrow> booking_json list \<Rightarrow> nat \<times> (string \<times> string) list" where
  "walk utc_offset new_start new_end blocked =
     fold (walk_step utc_offset new_start new_end blocked) [0..<length blocked] (0, [])"

text \<open>\<open>Booking(user = self.__user_id, **data).save()\<close>: the new document gets a fresh id.\<close>

definition save :: "services \<Rightarrow> string \<Rightarrow> date \<Rightarrow> date \<Rightarrow> booking list \<Rightarrow> booking" where
  "save self res new_start new_end db =
     \<lparr>bid = length db, user = user_id self, resource = res,
      start_date = new_start, end_date = new_end\<rparr>"

text \<open>
  \<open>Services.book_resource\<close> (services.py, lines 157 to 231). \<open>today\<close> is \<open>date.today()\<close>;
  the result is what the call returns or raises, with the booking collection as the call
  leaves it. The dictionary is taken to hold the three entries the method reads.
\<close>

definition book_resource ::
  "date \<Rightarrow> int \<Rightarrow> services \<Rightarrow> booking list \<Rightarrow> booking_data
     \<Rightarrow> (error + response) \<times> booking list" where
  "book_resource today utc_offset self db data =
     (case data_start_date data of
        None \<Rightarrow> (Inl ValueError, db)
      | Some new_start \<Rightarrow>
     (case data_end_date data of
        None \<Rightarrow> (Inl ValueError, db)
      | Some new_end \<Rightarrow>
          if today > new_start \<or> today > new_end
          then (Inl (Exception ''You cannot book a past date''), db)
          else if [b \<leftarrow> db. resource b = data_resource data
                     \<and> start_date b = new_start \<and> end_date b = new_end] \<noteq> []
          then (Inl (Exception (''The resource is already booking from '' @ isoformat new_start
                                  @ '' to '' @ isoformat new_end)), db)
          else
            let booking = open_reservations today (data_resource data) db;
                new = save self (data_resource data) new_start new_end db
            in if booking \<noteq> []
               then
                 (case walk utc_offset new_start new_end (map to_json booking) of
                    (conflicts, available_dates) \<Rightarrow>
                      if conflicts = 0
                      then (Inr (Success ''Booking successful'' (bid new)), db @ [new])
                      else (Inr (Conflicted
                                   (str_nat conflicts
                                      @ '' Conflicts found! These are the available timeframes. ''
                                      @ ''Beyond these, there are no open reservations.'')
                                   available_dates), db))
               else (Inr (Success ''Booking successful'' (bid new)), db @ [new])))"

section \<open>Listing\<close>

text \<open>
  \<open>convert_json\<close> and \<open>Services.list_bookings\<close> (services.py, lines 253 to 271): the
  bookings of the held user id that end today or later, each rendered with ISO dates.
  The query compares the \<open>user\<close> reference by object id. With no id held it selects the
  bookings without a user; with a held id that is not an object id it raises
  \<open>ValidationError\<close>.
\<close>

record booking_dict =
  dict_id :: nat
  dict_user :: "string option"
  dict_resource :: string
  dict_start_date :: string
  dict_end_date :: string

definition convert_json :: "booking \<Rightarrow> booking_dict" where
  "convert_json b =
     \<lparr>dict_id = bid b, dict_user = user b, dict_resource = resource b,
      dict_start_date = isoformat (start_date b), dict_end_date = isoformat (end_date b)\<rparr>"

definition same_user :: "(string \<Rightarrow> 'oid option) \<Rightarrow> 'oid \<Rightarrow> booking \<Rightarrow> bool" where
  "same_user ObjectId oid b =
     (case user b of None \<Rightarrow> False | Some u \<Rightarrow> ObjectId u = Some oid)"

definition list_bookings ::
  "(string \<Rightarrow> 'oid option) \<Rightarrow> date \<Rightarrow> services \<Rightarrow> booking list \<Rightarrow> error + booking_dict list" where
  "list_bookings ObjectId today self db =
     (case user_id self of
        None \<Rightarrow> Inr (map convert_json [b \<leftarrow> db. user b = None \<and> today \<le> end_date b])
      | Some uid \<Rightarrow>
          (case ObjectId uid of
             None \<Rightarrow> Inl ValidationError
           | Some oid \<Rightarrow>
               Inr (map convert_json [b \<leftarrow> db. same_user ObjectId oid b \<and> today \<le> end_date b])))"

section \<open>Specification of the walk\<close>

text \<open>
  The dates the loop reads from one fetched document: its \<open>curr_start\<close> and \<open>curr_end\<close>.
\<close>

definition curr_dates :: "int \<Rightarrow> booking_json \<Rightarrow> date \<times> date" where
  "curr_dates utc_offset j =
     (fromtimestamp_date utc_offset (start_date_ms j),
      fromtimestamp_date utc_offset (end_date_ms j))"

text \<open>
  The overlap rule in the specification's words: the number of existing intervals
  \<open>[curr_start, curr_end)\<close> that hold the candidate's start or the candidate's end.
\<close>

definition spec_conflicts :: "date \<Rightarrow> date \<Rightarrow> (date \<times> date) list \<Rightarrow> nat" where
  "spec_conflicts new_start new_end ds =
     length (filter (\<lambda>(curr_start, curr_end).
               curr_start \<le> new_start \<and> new_start < curr_end
             \<or> curr_start \<le> new_end \<and> new_end < curr_end) ds)"

text \<open>
  The gaps in the specification's words: for each consecutive pair (curr, next) with
  \<open>curr_end \<le> next_start\<close>, the pair \<open>(curr_end, next_start)\<close>, in the order of the pairs.
\<close>

definition spec_gaps :: "(date \<times> date) list \<Rightarrow> (date \<times> date) list" where
  "spec_gaps ds =
     map (\<lambda>(curr, next). (snd curr, fst next))
       (filter (\<lambda>(curr, next). snd curr \<le> fst next) (zip ds (tl ds)))"

definition render :: "date \<times> date \<Rightarrow> string \<times> string" where
  "render g = (strftime_long (fst g), strftime_long (snd g))"

text \<open>The dates of a gap list, in the order they are reported.\<close>

definition gap_dates :: "(date \<times> date) list \<Rightarrow> date list" where
  "gap_dates gs = concat (map (\<lambda>(a, b). [a, b]) gs)"

text \<open>The dates of one stored reservation, as a pair.\<close>

definition stored_dates :: "booking \<Rightarrow> date \<times> date" where
  "stored_dates b = (start_date b, end_date b)"

text \<open>
  The user id that a call of \<open>get_user_from_session_id\<close> assigns to \<open>__user_id\<close>, if it
  assigns one: the decoded value that the Redis store holds under the session's key, when
  that value is not empty and decodes. A call is given as the store it runs against and
  the session id it is passed.
\<close>

definition assigned_user_id ::
  "(string \<Rightarrow> string option) \<Rightarrow> (string \<rightharpoonup> string) \<times> string \<Rightarrow> string option" where
  "assigned_user_id decode call =
     (case fst call (''auth_'' @ snd call) of
        None \<Rightarrow> None
      | Some user_id_bytes \<Rightarrow> if user_id_bytes = [] then None else decode user_id_bytes)"

text \<open>
  For the examples, \<open>bson.ObjectId\<close> on strings: a string of 24 hexadecimal digits is an
  object id, written here in lower case; any other string is rejected.
\<close>

definition lower_hex :: "char \<Rightarrow> char" where
  "lower_hex c =
     (if c = CHR ''A'' then CHR ''a'' else if c = CHR ''B'' then CHR ''b''
      else if c = CHR ''C'' then CHR ''c'' else if c = CHR ''D'' then CHR ''d''
      else if c = CHR ''E'' then CHR ''e'' else if c = CHR ''F'' then CHR ''f'' else c)"

definition hex_object_id :: "string \<Rightarrow> string option" where
  "hex_object_id s =
     (if length s = 24 \<and> list_all (\<lambda>c. c \<in> set ''0123456789abcdefABCDEF'') s
      then Some (map lower_hex s) else None)"

section \<open>The walk computes the specified count and gaps\<close>

lemma walk_step_last:
  assumes "Suc i = length blocked"
  shows "walk_step off ns ne blocked i (c, a) =
     (c + spec_conflicts ns ne [curr_dates off (blocked ! i)], a)"
proof -
  from assms have "length blocked - i = 1" by arith
  then show ?thesis
    by (simp add: walk_step_def spec_conflicts_def curr_dates_def Let_def)
qed

lemma walk_step_inner:
  assumes "Suc i < length blocked"
  shows "walk_step off ns ne blocked i (c, a) =
     (c + spec_conflicts ns ne [curr_dates off (blocked ! i)],
      a @ map render (spec_gaps [curr_dates off (blocked ! i), curr_dates off (blocked ! Suc i)]))"
proof -
  from assms have "length blocked - i \<noteq> 1" by arith
  then show ?thesis
    by (simp add: walk_step_def spec_conflicts_def spec_gaps_def render_def curr_dates_def Let_def)
qed

lemma spec_conflicts_append:
  "spec_conflicts ns ne (xs @ ys) = spec_conflicts ns ne xs + spec_conflicts ns ne ys"
  by (simp add: spec_conflicts_def)

lemma spec_gaps_snoc:
  "spec_gaps (xs @ [x, y]) = spec_gaps (xs @ [x]) @ spec_gaps [x, y]"
proof (induction xs)
  case Nil
  show ?case by (simp add: spec_gaps_def)
next
  case (Cons a xs)
  then show ?case by (cases xs) (simp_all add: spec_gaps_def)
qed

text \<open>
  The loop invariant: after the iterations \<open>0, \<dots>, k - 1\<close> the counter holds the conflicts
  among the first \<open>k\<close> documents, and the list holds the gaps among the first \<open>k + 1\<close>.
\<close>

lemma walk_prefix:
  "k \<le> length blocked \<Longrightarrow>
   fold (walk_step off ns ne blocked) [0..<k] (0, []) =
     (spec_conflicts ns ne (map (curr_dates off) (take k blocked)),
      map render (spec_gaps (map (curr_dates off) (take (Suc k) blocked))))"
proof (induction k)
  case 0
  show ?case by (cases blocked) (simp_all add: spec_conflicts_def spec_gaps_def)
next
  case (Suc k)
  then have k: "k < length blocked" by simp
  have tk: "take (Suc k) blocked = take k blocked @ [blocked ! k]"
    using k by (simp add: take_Suc_conv_app_nth)
  have unroll: "fold (walk_step off ns ne blocked) [0..<Suc k] (0, []) =
      walk_step off ns ne blocked k
        (spec_conflicts ns ne (map (curr_dates off) (take k blocked)),
         map render (spec_gaps (map (curr_dates off) (take (Suc k) blocked))))"
    using Suc.IH k by simp
  show ?case
  proof (cases "Suc k = length blocked")
    case True
    then have tkk: "take (Suc (Suc k)) blocked = take (Suc k) blocked" by simp
    show ?thesis
      unfolding unroll walk_step_last [OF True] tkk
      by (simp add: tk spec_conflicts_append)
  next
    case False
    with k have kk: "Suc k < length blocked" by simp
    then have tkk: "take (Suc (Suc k)) blocked = take k blocked @ [blocked ! k, blocked ! Suc k]"
      using tk by (simp add: take_Suc_conv_app_nth)
    show ?thesis
      unfolding unroll walk_step_inner [OF kk] tkk
      by (simp add: tk spec_conflicts_append spec_gaps_snoc)
  qed
qed

lemma walk_eq:
  "walk off ns ne blocked =
     (spec_conflicts ns ne (map (curr_dates off) blocked),
      map render (spec_gaps (map (curr_dates off) blocked)))"
  by (simp add: walk_def walk_prefix)

text \<open>
  The round trip through JSON is the identity on dates when the local time zone is at
  or ahead of UTC (by less than a day).
\<close>

lemma fromtimestamp_to_json:
  assumes "0 \<le> off" "off < 86400"
  shows "curr_dates off (to_json b) = (start_date b, end_date b)"
proof -
  have "(d * 86400000 div 1000 + off) div 86400 = d" for d :: int
  proof -
    have "d * 86400000 div 1000 = d * 86400" by simp
    moreover have "(d * 86400 + off) div 86400 = d"
      using assms by (simp add: div_pos_pos_trivial)
    ultimately show ?thesis by simp
  qed
  then show ?thesis
    by (simp add: curr_dates_def to_json_def fromtimestamp_date_def)
qed

lemma walk_step_conflicts:
  "fst (walk_step off ns ne blocked i (c, a)) =
     (if fst (curr_dates off (blocked ! i)) \<le> ns \<and> ns < snd (curr_dates off (blocked ! i))
         \<or> fst (curr_dates off (blocked ! i)) \<le> ne \<and> ne < snd (curr_dates off (blocked ! i))
      then c + 1 else c)"
  by (simp add: walk_step_def curr_dates_def Let_def)


lemma spec_gaps_Cons2:
  "spec_gaps (x # y # ds) =
     (if snd x \<le> fst y then [(snd x, fst y)] else []) @ spec_gaps (y # ds)"
  by (simp add: spec_gaps_def)

text \<open>
  In a sequence sorted by start date whose intervals all have start before end, no gap
  date lies before the start of an element that starts first.
\<close>

lemma gap_dates_lower:
  assumes "\<forall>p \<in> set ds. fst p \<le> snd p"
    and "d \<in> set (gap_dates (spec_gaps ds))" and "\<forall>p \<in> set ds. fst q \<le> fst p"
  shows "fst q \<le> d"
proof -
  from assms(2) obtain c n where cn: "(c, n) \<in> set (zip ds (tl ds))" and d: "d = snd c \<or> d = fst n"
    by (auto simp add: gap_dates_def spec_gaps_def)
  from cn have c: "c \<in> set ds" by (rule set_zip_leftD)
  from cn have "n \<in> set (tl ds)" by (rule set_zip_rightD)
  then have "n \<in> set ds" by (rule list.set_sel(2) [rotated]) (use c in auto)
  with c show ?thesis
    using d assms(1,3) by (metis order_trans)
qed

lemma sorted_gap_dates:
  "sorted (map fst ds) \<Longrightarrow> \<forall>p \<in> set ds. fst p \<le> snd p \<Longrightarrow> sorted (gap_dates (spec_gaps ds))"
proof (induction ds rule: induct_list012)
  case 1
  show ?case by (simp add: spec_gaps_def gap_dates_def)
next
  case (2 x)
  show ?case by (simp add: spec_gaps_def gap_dates_def)
next
  case (3 x y ds)
  then have IH: "sorted (gap_dates (spec_gaps (y # ds)))" by simp
  have low: "fst y \<le> d" if "d \<in> set (gap_dates (spec_gaps (y # ds)))" for d
  proof (rule gap_dates_lower [OF _ that])
    show "\<forall>p \<in> set (y # ds). fst p \<le> snd p" using 3 by simp
    show "\<forall>p \<in> set (y # ds). fst y \<le> fst p" using 3 by auto
  qed
  show ?case
  proof (cases "snd x \<le> fst y")
    case True
    have "gap_dates (spec_gaps (x # y # ds)) = snd x # fst y # gap_dates (spec_gaps (y # ds))"
      using True by (simp add: spec_gaps_Cons2 gap_dates_def)
    moreover have "sorted (snd x # fst y # gap_dates (spec_gaps (y # ds)))"
      using True IH low by (auto simp add: order_trans)
    ultimately show ?thesis by simp
  next
    case False
    then show ?thesis using IH by (simp add: spec_gaps_Cons2)
  qed
qed

section \<open>Stored dates and decoded dates\<close>

lemma curr_dates_to_json:
  "0 \<le> off \<Longrightarrow> off < 86400 \<Longrightarrow> curr_dates off (to_json b) = stored_dates b"
  by (simp add: fromtimestamp_to_json stored_dates_def)

lemma walk_stored:
  assumes "0 \<le> off" and "off < 86400"
  shows "walk off ns ne (map to_json bookings) =
     (spec_conflicts ns ne (map stored_dates bookings),
      map render (spec_gaps (map stored_dates bookings)))"
proof -
  have "map (curr_dates off) (map to_json bookings) = map stored_dates bookings"
    using assms by (simp add: curr_dates_to_json)
  then show ?thesis unfolding walk_eq by (rule arg_cong)
qed

section \<open>Outcomes of a booking\<close>

lemma book_resource_outcome:
  "(\<exists>e. book_resource today utc_offset self db data = (Inl e, db))
   \<or> (\<exists>m gaps. book_resource today utc_offset self db data = (Inr (Conflicted m gaps), db))
   \<or> (\<exists>new_start new_end.
         book_resource today utc_offset self db data =
           (Inr (Success ''Booking successful'' (length db)),
            db @ [save self (data_resource data) new_start new_end db]))"
  by (auto simp add: book_resource_def Let_def save_def split: option.splits prod.splits)

lemma book_resource_Success:
  assumes "book_resource today utc_offset self db data = (Inr (Success m i), db')"
  shows "\<exists>new_start new_end.
           data_start_date data = Some new_start \<and> data_end_date data = Some new_end
         \<and> today \<le> new_start \<and> today \<le> new_end
         \<and> db' = db @ [save self (data_resource data) new_start new_end db]"
  using assms
  by (auto simp add: book_resource_def Let_def split: option.splits prod.splits if_splits)


section \<open>Session lookups\<close>

lemma lookup_user_id:
  "user_id (snd (get_user_from_session_id decode ObjectId r users self sid)) =
     (case assigned_user_id decode (r, sid) of None \<Rightarrow> user_id self | Some uid \<Rightarrow> Some uid)"
  by (simp add: get_user_from_session_id_def assigned_user_id_def Let_def split: option.splits)

lemma lookups_user_id:
  "user_id (fold (\<lambda>(r, sid) self. snd (get_user_from_session_id decode ObjectId r users self sid))
              calls self0) =
     (if List.map_filter (assigned_user_id decode) calls = [] then user_id self0
      else Some (last (List.map_filter (assigned_user_id decode) calls)))"
proof (induction calls rule: rev_induct)
  case Nil
  show ?case by (simp add: List.map_filter_simps)
next
  case (snoc x calls)
  obtain r sid where x: "x = (r, sid)" by (cases x)
  have app: "List.map_filter (assigned_user_id decode) (calls @ [x]) =
      List.map_filter (assigned_user_id decode) calls
        @ (case assigned_user_id decode x of None \<Rightarrow> [] | Some uid \<Rightarrow> [uid])"
    by (simp add: List.map_filter_def split: option.splits)
  show ?case
  proof (cases "assigned_user_id decode x")
    case None
    then show ?thesis using snoc x unfolding app by (simp add: lookup_user_id)
  next
    case (Some uid)
    then show ?thesis using x unfolding app by (simp add: lookup_user_id)
  qed
qed

section \<open>The overlap rule\<close>

text \<open>
  C1, as the code has it where the local time zone is at or ahead of UTC. The counter that
  the walk returns is the number of fetched reservations \<open>[curr_start, curr_end)\<close> with
  \<open>curr_start \<le> new_start < curr_end\<close> or \<open>curr_start \<le> new_end < curr_end\<close>, and the
  iteration for a reservation increments the counter exactly under that condition. A
  candidate that strictly contains the reservation is not counted. A candidate whose start
  equals the reservation's end is not counted provided its own start is not after its end.
\<close>

theorem C1_conflict_rule:
  assumes "0 \<le> utc_offset" and "utc_offset < 86400"
  shows "fst (walk utc_offset ns ne (map to_json bookings)) =
     length (filter (\<lambda>b. start_date b \<le> ns \<and> ns < end_date b
                       \<or> start_date b \<le> ne \<and> ne < end_date b) bookings)
   \<and> (i < length bookings \<longrightarrow>
        fst (walk_step utc_offset ns ne (map to_json bookings) i (c, a)) =
          (if start_date (bookings ! i) \<le> ns \<and> ns < end_date (bookings ! i)
              \<or> start_date (bookings ! i) \<le> ne \<and> ne < end_date (bookings ! i)
           then c + 1 else c)
      \<and> (ns < start_date (bookings ! i) \<and> end_date (bookings ! i) < ne \<longrightarrow>
           fst (walk_step utc_offset ns ne (map to_json bookings) i (c, a)) = c)
      \<and> (ns = end_date (bookings ! i) \<and> ns \<le> ne \<longrightarrow>
           fst (walk_step utc_offset ns ne (map to_json bookings) i (c, a)) = c))"
proof -
  have "fst (walk utc_offset ns ne (map to_json bookings)) =
          spec_conflicts ns ne (map stored_dates bookings)"
    using assms by (simp add: walk_stored)
  also have "\<dots> = length (filter (\<lambda>b. start_date b \<le> ns \<and> ns < end_date b
                       \<or> start_date b \<le> ne \<and> ne < end_date b) bookings)"
    by (simp add: spec_conflicts_def stored_dates_def filter_map comp_def)
  finally have total: "fst (walk utc_offset ns ne (map to_json bookings)) =
     length (filter (\<lambda>b. start_date b \<le> ns \<and> ns < end_date b
                       \<or> start_date b \<le> ne \<and> ne < end_date b) bookings)" .
  have step: "fst (walk_step utc_offset ns ne (map to_json bookings) i (c, a)) =
          (if start_date (bookings ! i) \<le> ns \<and> ns < end_date (bookings ! i)
              \<or> start_date (bookings ! i) \<le> ne \<and> ne < end_date (bookings ! i)
           then c + 1 else c)" if "i < length bookings"
    using that assms by (simp add: walk_step_conflicts curr_dates_to_json stored_dates_def)
  from total step show ?thesis by auto
qed

text \<open>
  One hour ahead of UTC, with the reservation 2025-06-01 to 2025-06-05 fetched: the
  candidate 2025-06-04 to 2025-06-10 is counted; the candidate 2025-06-05 to 2025-06-10,
  which starts where the reservation ends, is not; nor is the candidate 2025-05-30 to
  2025-06-10, which strictly contains it.
\<close>

theorem C1_conflict_rule_witness:
  "fst (walk_step 3600 (days_from_civil 2025 6 4) (days_from_civil 2025 6 10)
          (map to_json [\<lparr>bid = 0, user = None, resource = ''hall'',
                    start_date = days_from_civil 2025 6 1, end_date = days_from_civil 2025 6 5\<rparr>])
          0 (0, [])) = 1
   \<and> fst (walk_step 3600 (days_from_civil 2025 6 5) (days_from_civil 2025 6 10)
          (map to_json [\<lparr>bid = 0, user = None, resource = ''hall'',
                    start_date = days_from_civil 2025 6 1, end_date = days_from_civil 2025 6 5\<rparr>])
          0 (0, [])) = 0
   \<and> fst (walk_step 3600 (days_from_civil 2025 5 30) (days_from_civil 2025 6 10)
          (map to_json [\<lparr>bid = 0, user = None, resource = ''hall'',
                    start_date = days_from_civil 2025 6 1, end_date = days_from_civil 2025 6 5\<rparr>])
          0 (0, [])) = 0"
proof -
  let ?bs = "[\<lparr>bid = 0, user = None, resource = ''hall'',
             start_date = days_from_civil 2025 6 1, end_date = days_from_civil 2025 6 5\<rparr>]"
  have zone: "(0::int) \<le> 3600" "(3600::int) < 86400" by simp_all
  have len: "0 < length ?bs" by simp
  have inside: "start_date (?bs ! 0) \<le> days_from_civil 2025 6 4
                  \<and> days_from_civil 2025 6 4 < end_date (?bs ! 0)"
    by code_simp
  have touching: "days_from_civil 2025 6 5 = end_date (?bs ! 0)
                  \<and> days_from_civil 2025 6 5 \<le> days_from_civil 2025 6 10"
    by code_simp
  have containing: "days_from_civil 2025 5 30 < start_date (?bs ! 0)
                  \<and> end_date (?bs ! 0) < days_from_civil 2025 6 10"
    by code_simp
  have 1: "fst (walk_step 3600 (days_from_civil 2025 6 4) (days_from_civil 2025 6 10)
                  (map to_json ?bs) 0 (0, [])) = 1"
    using C1_conflict_rule [OF zone, where bookings = ?bs and i = 0
        and ns = "days_from_civil 2025 6 4" and ne = "days_from_civil 2025 6 10"
        and c = 0 and a = "[]"] len inside
    by simp
  have 2: "fst (walk_step 3600 (days_from_civil 2025 6 5) (days_from_civil 2025 6 10)
                  (map to_json ?bs) 0 (0, [])) = 0"
    using C1_conflict_rule [OF zone, where bookings = ?bs and i = 0
        and ns = "days_from_civil 2025 6 5" and ne = "days_from_civil 2025 6 10"
        and c = 0 and a = "[]"] len touching
    by blast
  have 3: "fst (walk_step 3600 (days_from_civil 2025 5 30) (days_from_civil 2025 6 10)
                  (map to_json ?bs) 0 (0, [])) = 0"
    using C1_conflict_rule [OF zone, where bookings = ?bs and i = 0
        and ns = "days_from_civil 2025 5 30" and ne = "days_from_civil 2025 6 10"
        and c = 0 and a = "[]"] len containing
    by blast
  from 1 2 3 show ?thesis by blast
qed

text \<open>
  A candidate whose start equals an existing reservation's end is counted when its end
  lies inside the reservation: against the reservation 2025-06-01 to 2025-06-05, the
  request with start 2025-06-05 and end 2025-06-03 is answered with one conflict.
\<close>

theorem C1_start_at_end_counted:
  "book_resource (days_from_civil 2025 5 1) 0 Services_init
     [\<lparr>bid = 0, user = None, resource = ''hall'', start_date = days_from_civil 2025 6 1,
       end_date = days_from_civil 2025 6 5\<rparr>]
     \<lparr>data_resource = ''hall'', data_start_date = Some (days_from_civil 2025 6 5),
      data_end_date = Some (days_from_civil 2025 6 3)\<rparr>
   = (Inr (Conflicted
        ''1 Conflicts found! These are the available timeframes. Beyond these, there are no open reservations.''
        []),
      [\<lparr>bid = 0, user = None, resource = ''hall'', start_date = days_from_civil 2025 6 1,
        end_date = days_from_civil 2025 6 5\<rparr>])"
  by code_simp

section \<open>The fetched sequence\<close>

text \<open>
  C2 does not hold of the code: the query selects on the start date, so a reservation
  that began before today and has not ended is not fetched. On 2025-06-03, with the hall
  reserved from 2025-06-01 to 2025-06-10, nothing is fetched and a request for 2025-06-03
  to 2025-06-04 is committed.
\<close>

theorem C2_ongoing_reservation_not_fetched:
  "open_reservations (days_from_civil 2025 6 3) ''hall''
     [\<lparr>bid = 0, user = None, resource = ''hall'', start_date = days_from_civil 2025 6 1,
       end_date = days_from_civil 2025 6 10\<rparr>] = []
   \<and> book_resource (days_from_civil 2025 6 3) 0 Services_init
     [\<lparr>bid = 0, user = None, resource = ''hall'', start_date = days_from_civil 2025 6 1,
       end_date = days_from_civil 2025 6 10\<rparr>]
     \<lparr>data_resource = ''hall'', data_start_date = Some (days_from_civil 2025 6 3),
      data_end_date = Some (days_from_civil 2025 6 4)\<rparr>
   = (Inr (Success ''Booking successful'' 1),
      [\<lparr>bid = 0, user = None, resource = ''hall'', start_date = days_from_civil 2025 6 1,
        end_date = days_from_civil 2025 6 10\<rparr>,
       \<lparr>bid = 1, user = None, resource = ''hall'', start_date = days_from_civil 2025 6 3,
        end_date = days_from_civil 2025 6 4\<rparr>])"
  by code_simp

section \<open>What a commit persists\<close>

text \<open>
  C3, as the code has it. A booking that succeeds appends one reservation carrying the
  request's resource and dates; both dates are on or after today. The order of the two
  dates is not checked.
\<close>

theorem C3_persisted_dates_not_past:
  assumes "book_resource today utc_offset self db data = (Inr (Success m i), db')"
  shows "\<exists>new_start new_end.
           data_start_date data = Some new_start \<and> data_end_date data = Some new_end
         \<and> db' = db @ [\<lparr>bid = length db, user = user_id self, resource = data_resource data,
                         start_date = new_start, end_date = new_end\<rparr>]
         \<and> today \<le> new_start \<and> today \<le> new_end"
  using book_resource_Success [OF assms] by (auto simp add: save_def)

text \<open>
  On 2025-05-01 nothing is reserved, and a request with start 2025-06-10 and end 2025-06-05
  is committed: the stored reservation ends before it starts.
\<close>

theorem C3_end_before_start_committed:
  "book_resource (days_from_civil 2025 5 1) 0 Services_init []
     \<lparr>data_resource = ''hall'', data_start_date = Some (days_from_civil 2025 6 10),
      data_end_date = Some (days_from_civil 2025 6 5)\<rparr>
   = (Inr (Success ''Booking successful'' 0),
      [\<lparr>bid = 0, user = None, resource = ''hall'', start_date = days_from_civil 2025 6 10,
        end_date = days_from_civil 2025 6 5\<rparr>])
   \<and> days_from_civil 2025 6 5 < days_from_civil 2025 6 10"
  by code_simp

theorem C3_persisted_dates_not_past_witness:
  "\<exists>new_start new_end.
      data_start_date \<lparr>data_resource = ''hall'', data_start_date = Some (days_from_civil 2025 6 10),
                       data_end_date = Some (days_from_civil 2025 6 12)\<rparr> = Some new_start
    \<and> data_end_date \<lparr>data_resource = ''hall'', data_start_date = Some (days_from_civil 2025 6 10),
                       data_end_date = Some (days_from_civil 2025 6 12)\<rparr> = Some new_end
    \<and> [\<lparr>bid = 0, user = None, resource = ''hall'', start_date = days_from_civil 2025 6 10,
         end_date = days_from_civil 2025 6 12\<rparr>]
      = [] @ [\<lparr>bid = length ([] :: booking list), user = user_id Services_init,
               resource = data_resource \<lparr>data_resource = ''hall'',
                  data_start_date = Some (days_from_civil 2025 6 10),
                  data_end_date = Some (days_from_civil 2025 6 12)\<rparr>,
               start_date = new_start, end_date = new_end\<rparr>]
    \<and> days_from_civil 2025 5 1 \<le> new_start \<and> days_from_civil 2025 5 1 \<le> new_end"
proof -
  have "book_resource (days_from_civil 2025 5 1) 0 Services_init []
          \<lparr>data_resource = ''hall'', data_start_date = Some (days_from_civil 2025 6 10),
           data_end_date = Some (days_from_civil 2025 6 12)\<rparr>
        = (Inr (Success ''Booking successful'' 0),
           [\<lparr>bid = 0, user = None, resource = ''hall'', start_date = days_from_civil 2025 6 10,
             end_date = days_from_civil 2025 6 12\<rparr>])"
    by code_simp
  then show ?thesis by (rule C3_persisted_dates_not_past)
qed

section \<open>The reported gaps\<close>




section \<open>Rejected requests\<close>

text \<open>
  C5. A request whose start date or end date is before today raises the past-date
  exception, whatever is reserved, and leaves the collection as it was.
\<close>

theorem C5_past_date_rejected:
  assumes "data_start_date data = Some new_start" and "data_end_date data = Some new_end"
    and "new_start < today \<or> new_end < today"
  shows "book_resource today utc_offset self db data =
           (Inl (Exception ''You cannot book a past date''), db)"
  using assms by (auto simp add: book_resource_def)

theorem C5_past_date_rejected_witness:
  "book_resource (days_from_civil 2025 6 10) 0 Services_init []
     \<lparr>data_resource = ''hall'', data_start_date = Some (days_from_civil 2025 6 9),
      data_end_date = Some (days_from_civil 2025 6 12)\<rparr>
   = (Inl (Exception ''You cannot book a past date''), [])"
proof -
  have "days_from_civil 2025 6 9 < days_from_civil 2025 6 10
        \<or> days_from_civil 2025 6 12 < days_from_civil 2025 6 10"
    by code_simp
  then show ?thesis
    by (intro C5_past_date_rejected) simp_all
qed

text \<open>
  C6. A request with dates not before today, for a resource that already has a
  reservation with the same start and end date, raises the already-booked exception,
  whatever else is reserved, and leaves the collection as it was.
\<close>

theorem C6_duplicate_rejected:
  assumes "data_start_date data = Some new_start" and "data_end_date data = Some new_end"
    and "today \<le> new_start" and "today \<le> new_end"
    and "b \<in> set db" and "resource b = data_resource data"
    and "start_date b = new_start" and "end_date b = new_end"
  shows "book_resource today utc_offset self db data =
           (Inl (Exception (''The resource is already booking from '' @ isoformat new_start
                              @ '' to '' @ isoformat new_end)), db)"
proof -
  from assms(5-8) have "[b \<leftarrow> db. resource b = data_resource data
                     \<and> start_date b = new_start \<and> end_date b = new_end] \<noteq> []"
    by (auto simp add: filter_empty_conv)
  with assms(1-4) show ?thesis
    by (simp add: book_resource_def)
qed

theorem C6_duplicate_rejected_witness:
  "book_resource (days_from_civil 2025 5 1) 0 Services_init
     [\<lparr>bid = 0, user = None, resource = ''hall'', start_date = days_from_civil 2025 6 10,
       end_date = days_from_civil 2025 6 12\<rparr>,
      \<lparr>bid = 1, user = None, resource = ''hall'', start_date = days_from_civil 2025 6 1,
       end_date = days_from_civil 2025 6 5\<rparr>]
     \<lparr>data_resource = ''hall'', data_start_date = Some (days_from_civil 2025 6 1),
      data_end_date = Some (days_from_civil 2025 6 5)\<rparr>
   = (Inl (Exception ''The resource is already booking from 2025-06-01 to 2025-06-05''),
      [\<lparr>bid = 0, user = None, resource = ''hall'', start_date = days_from_civil 2025 6 10,
        end_date = days_from_civil 2025 6 12\<rparr>,
       \<lparr>bid = 1, user = None, resource = ''hall'', start_date = days_from_civil 2025 6 1,
        end_date = days_from_civil 2025 6 5\<rparr>])"
proof -
  have msg: "''The resource is already booking from '' @ isoformat (days_from_civil 2025 6 1)
               @ '' to '' @ isoformat (days_from_civil 2025 6 5)
             = ''The resource is already booking from 2025-06-01 to 2025-06-05''"
    by code_simp
  have today: "days_from_civil 2025 5 1 \<le> days_from_civil 2025 6 1
             \<and> days_from_civil 2025 5 1 \<le> days_from_civil 2025 6 5"
    by code_simp
  show ?thesis
    unfolding msg [symmetric]
    by (rule C6_duplicate_rejected
          [where b = "\<lparr>bid = 1, user = None, resource = ''hall'',
                        start_date = days_from_civil 2025 6 1,
                        end_date = days_from_civil 2025 6 5\<rparr>"])
       (simp_all add: today)
qed

section \<open>Gaps and the local time zone\<close>

text \<open>
  C7 does not hold of the code: the dates of a gap are read back from JSON in local time,
  so they depend on the time zone of the process and not on the fetched sequence alone.
  Four hours behind UTC, with the reservations 2025-06-01 to 2025-06-03 and 2025-06-10 to
  2025-06-12, the gap from 3 June to 10 June is reported as 2 June to 9 June.
\<close>

theorem C7_gap_shifted_behind_utc:
  "book_resource (days_from_civil 2025 5 1) (- 14400) Services_init
     [\<lparr>bid = 0, user = None, resource = ''hall'', start_date = days_from_civil 2025 6 1,
       end_date = days_from_civil 2025 6 3\<rparr>,
      \<lparr>bid = 1, user = None, resource = ''hall'', start_date = days_from_civil 2025 6 10,
       end_date = days_from_civil 2025 6 12\<rparr>]
     \<lparr>data_resource = ''hall'', data_start_date = Some (days_from_civil 2025 6 10),
      data_end_date = Some (days_from_civil 2025 6 13)\<rparr>
   = (Inr (Conflicted
        ''1 Conflicts found! These are the available timeframes. Beyond these, there are no open reservations.''
        [(''Monday, 02 June, 2025'', ''Monday, 09 June, 2025'')]),
      [\<lparr>bid = 0, user = None, resource = ''hall'', start_date = days_from_civil 2025 6 1,
        end_date = days_from_civil 2025 6 3\<rparr>,
       \<lparr>bid = 1, user = None, resource = ''hall'', start_date = days_from_civil 2025 6 10,
        end_date = days_from_civil 2025 6 12\<rparr>])
   \<and> strftime_long (days_from_civil 2025 6 3) = ''Tuesday, 03 June, 2025''
   \<and> strftime_long (days_from_civil 2025 6 10) = ''Tuesday, 10 June, 2025''"
  by code_simp

text \<open>
  Where the local time zone is at or ahead of UTC, the gap list of the walk is the
  specified gap list of the stored dates, the same for every candidate.
\<close>

lemma gaps_of_stored_dates:
  assumes "0 \<le> utc_offset" and "utc_offset < 86400"
  shows "snd (walk utc_offset ns ne (map to_json bookings)) =
           map render (spec_gaps (map stored_dates bookings))"
  using assms by (simp add: walk_stored)

text \<open>
  Behind UTC every date read back is one day early, and the overlap test compares it with
  the candidate's dates as given: four hours behind UTC, the candidate 2025-06-04 to
  2025-06-10 is committed over the reservation 2025-06-01 to 2025-06-05.
\<close>

lemma decode_behind_utc:
  assumes "- 86400 \<le> off" and "off < 0"
  shows "curr_dates off (to_json b) = (start_date b - 1, end_date b - 1)"
proof -
  have "(d * 86400000 div 1000 + off) div 86400 = d - 1" for d :: int
  proof -
    have "d * 86400000 div 1000 = d * 86400" by simp
    moreover have "(d * 86400 + off) div 86400 = d - 1"
    proof -
      have "d * 86400 + off = (d - 1) * 86400 + (off + 86400)" by simp
      moreover have "((d - 1) * 86400 + (off + 86400)) div 86400 = d - 1"
        using assms by (simp add: div_pos_pos_trivial del: left_diff_distrib)
      ultimately show ?thesis by simp
    qed
    ultimately show ?thesis by simp
  qed
  then show ?thesis
    by (simp add: curr_dates_def to_json_def fromtimestamp_date_def)
qed

lemma overlap_missed_behind_utc:
  "fst (book_resource (days_from_civil 2025 5 1) (- 14400) Services_init
     [\<lparr>bid = 0, user = None, resource = ''hall'', start_date = days_from_civil 2025 6 1,
       end_date = days_from_civil 2025 6 5\<rparr>]
     \<lparr>data_resource = ''hall'', data_start_date = Some (days_from_civil 2025 6 4),
      data_end_date = Some (days_from_civil 2025 6 10)\<rparr>)
   = Inr (Success ''Booking successful'' 1)"
  by code_simp

section \<open>Order of the gaps\<close>

text \<open>
  C8, as the code has it. For a fetched sequence that is sorted by start date and whose
  reservations all have their start not after their end, the walk returns the rendered
  gaps in the order of the pairs, and the dates of the gaps, read in the order reported,
  never decrease.
\<close>

theorem C8_gaps_ascending:
  assumes "sorted (map (fst \<circ> curr_dates off) blocked)"
    and "\<forall>j \<in> set blocked. fst (curr_dates off j) \<le> snd (curr_dates off j)"
  shows "snd (walk off ns ne blocked) = map render (spec_gaps (map (curr_dates off) blocked))
       \<and> sorted (gap_dates (spec_gaps (map (curr_dates off) blocked)))"
proof -
  have "sorted (gap_dates (spec_gaps (map (curr_dates off) blocked)))"
    using assms by (intro sorted_gap_dates) (simp_all add: comp_def)
  then show ?thesis by (simp add: walk_eq)
qed

theorem C8_gaps_ascending_witness:
  "snd (walk 0 (days_from_civil 2025 6 2) (days_from_civil 2025 6 7)
      (map to_json
        [\<lparr>bid = 0, user = None, resource = ''hall'', start_date = days_from_civil 2025 6 1,
          end_date = days_from_civil 2025 6 3\<rparr>,
         \<lparr>bid = 1, user = None, resource = ''hall'', start_date = days_from_civil 2025 6 10,
          end_date = days_from_civil 2025 6 12\<rparr>,
         \<lparr>bid = 2, user = None, resource = ''hall'', start_date = days_from_civil 2025 6 20,
          end_date = days_from_civil 2025 6 22\<rparr>]))
    = map render (spec_gaps (map (curr_dates 0) (map to_json
        [\<lparr>bid = 0, user = None, resource = ''hall'', start_date = days_from_civil 2025 6 1,
          end_date = days_from_civil 2025 6 3\<rparr>,
         \<lparr>bid = 1, user = None, resource = ''hall'', start_date = days_from_civil 2025 6 10,
          end_date = days_from_civil 2025 6 12\<rparr>,
         \<lparr>bid = 2, user = None, resource = ''hall'', start_date = days_from_civil 2025 6 20,
          end_date = days_from_civil 2025 6 22\<rparr>])))
   \<and> sorted (gap_dates (spec_gaps (map (curr_dates 0) (map to_json
        [\<lparr>bid = 0, user = None, resource = ''hall'', start_date = days_from_civil 2025 6 1,
          end_date = days_from_civil 2025 6 3\<rparr>,
         \<lparr>bid = 1, user = None, resource = ''hall'', start_date = days_from_civil 2025 6 10,
          end_date = days_from_civil 2025 6 12\<rparr>,
         \<lparr>bid = 2, user = None, resource = ''hall'', start_date = days_from_civil 2025 6 20,
          end_date = days_from_civil 2025 6 22\<rparr>]))))"
proof (rule C8_gaps_ascending)
  show "sorted (map (fst \<circ> curr_dates 0) (map to_json
        [\<lparr>bid = 0, user = None, resource = ''hall'', start_date = days_from_civil 2025 6 1,
          end_date = days_from_civil 2025 6 3\<rparr>,
         \<lparr>bid = 1, user = None, resource = ''hall'', start_date = days_from_civil 2025 6 10,
          end_date = days_from_civil 2025 6 12\<rparr>,
         \<lparr>bid = 2, user = None, resource = ''hall'', start_date = days_from_civil 2025 6 20,
          end_date = days_from_civil 2025 6 22\<rparr>]))"
    by code_simp
  show "\<forall>j \<in> set (map to_json
        [\<lparr>bid = 0, user = None, resource = ''hall'', start_date = days_from_civil 2025 6 1,
          end_date = days_from_civil 2025 6 3\<rparr>,
         \<lparr>bid = 1, user = None, resource = ''hall'', start_date = days_from_civil 2025 6 10,
          end_date = days_from_civil 2025 6 12\<rparr>,
         \<lparr>bid = 2, user = None, resource = ''hall'', start_date = days_from_civil 2025 6 20,
          end_date = days_from_civil 2025 6 22\<rparr>]). fst (curr_dates 0 j) \<le> snd (curr_dates 0 j)"
    by code_simp
qed

text \<open>
  A stored reservation may end before it starts. On 2025-06-01 three requests are
  committed one after the other: 2025-06-12 to 2025-06-05, then 2025-06-10 to 2025-06-11,
  then 2025-06-13 to 2025-06-14. A fourth request, 2025-06-13 to 2025-06-20, conflicts,
  and the second reported gap starts on 5 June, before the first one, which starts on
  11 June.
\<close>

theorem C8_gaps_out_of_order:
  "book_resource (days_from_civil 2025 6 1) 0 Services_init []
     \<lparr>data_resource = ''hall'', data_start_date = Some (days_from_civil 2025 6 12),
      data_end_date = Some (days_from_civil 2025 6 5)\<rparr>
   = (Inr (Success ''Booking successful'' 0),
      [\<lparr>bid = 0, user = None, resource = ''hall'', start_date = days_from_civil 2025 6 12,
        end_date = days_from_civil 2025 6 5\<rparr>])
   \<and> book_resource (days_from_civil 2025 6 1) 0 Services_init
      [\<lparr>bid = 0, user = None, resource = ''hall'', start_date = days_from_civil 2025 6 12,
        end_date = days_from_civil 2025 6 5\<rparr>]
     \<lparr>data_resource = ''hall'', data_start_date = Some (days_from_civil 2025 6 10),
      data_end_date = Some (days_from_civil 2025 6 11)\<rparr>
   = (Inr (Success ''Booking successful'' 1),
      [\<lparr>bid = 0, user = None, resource = ''hall'', start_date = days_from_civil 2025 6 12,
        end_date = days_from_civil 2025 6 5\<rparr>,
       \<lparr>bid = 1, user = None, resource = ''hall'', start_date = days_from_civil 2025 6 10,
        end_date = days_from_civil 2025 6 11\<rparr>])
   \<and> book_resource (days_from_civil 2025 6 1) 0 Services_init
      [\<lparr>bid = 0, user = None, resource = ''hall'', start_date = days_from_civil 2025 6 12,
        end_date = days_from_civil 2025 6 5\<rparr>,
       \<lparr>bid = 1, user = None, resource = ''hall'', start_date = days_from_civil 2025 6 10,
        end_date = days_from_civil 2025 6 11\<rparr>]
     \<lparr>data_resource = ''hall'', data_start_date = Some (days_from_civil 2025 6 13),
      data_end_date = Some (days_from_civil 2025 6 14)\<rparr>
   = (Inr (Success ''Booking successful'' 2),
      [\<lparr>bid = 0, user = None, resource = ''hall'', start_date = days_from_civil 2025 6 12,
        end_date = days_from_civil 2025 6 5\<rparr>,
       \<lparr>bid = 1, user = None, resource = ''hall'', start_date = days_from_civil 2025 6 10,
        end_date = days_from_civil 2025 6 11\<rparr>,
       \<lparr>bid = 2, user = None, resource = ''hall'', start_date = days_from_civil 2025 6 13,
        end_date = days_from_civil 2025 6 14\<rparr>])
   \<and> map start_date (open_reservations (days_from_civil 2025 6 1) ''hall''
      [\<lparr>bid = 0, user = None, resource = ''hall'', start_date = days_from_civil 2025 6 12,
        end_date = days_from_civil 2025 6 5\<rparr>,
       \<lparr>bid = 1, user = None, resource = ''hall'', start_date = days_from_civil 2025 6 10,
        end_date = days_from_civil 2025 6 11\<rparr>,
       \<lparr>bid = 2, user = None, resource = ''hall'', start_date = days_from_civil 2025 6 13,
        end_date = days_from_civil 2025 6 14\<rparr>])
     = [days_from_civil 2025 6 10, days_from_civil 2025 6 12, days_from_civil 2025 6 13]
   \<and> book_resource (days_from_civil 2025 6 1) 0 Services_init
      [\<lparr>bid = 0, user = None, resource = ''hall'', start_date = days_from_civil 2025 6 12,
        end_date = days_from_civil 2025 6 5\<rparr>,
       \<lparr>bid = 1, user = None, resource = ''hall'', start_date = days_from_civil 2025 6 10,
        end_date = days_from_civil 2025 6 11\<rparr>,
       \<lparr>bid = 2, user = None, resource = ''hall'', start_date = days_from_civil 2025 6 13,
        end_date = days_from_civil 2025 6 14\<rparr>]
     \<lparr>data_resource = ''hall'', data_start_date = Some (days_from_civil 2025 6 13),
      data_end_date = Some (days_from_civil 2025 6 20)\<rparr>
   = (Inr (Conflicted
        ''1 Conflicts found! These are the available timeframes. Beyond these, there are no open reservations.''
        [(''Wednesday, 11 June, 2025'', ''Thursday, 12 June, 2025''),
         (''Thursday, 05 June, 2025'', ''Friday, 13 June, 2025'')]),
      [\<lparr>bid = 0, user = None, resource = ''hall'', start_date = days_from_civil 2025 6 12,
        end_date = days_from_civil 2025 6 5\<rparr>,
       \<lparr>bid = 1, user = None, resource = ''hall'', start_date = days_from_civil 2025 6 10,
        end_date = days_from_civil 2025 6 11\<rparr>,
       \<lparr>bid = 2, user = None, resource = ''hall'', start_date = days_from_civil 2025 6 13,
        end_date = days_from_civil 2025 6 14\<rparr>])
   \<and> \<not> sorted (gap_dates (spec_gaps (map (curr_dates 0) (map to_json
      (open_reservations (days_from_civil 2025 6 1) ''hall''
        [\<lparr>bid = 0, user = None, resource = ''hall'', start_date = days_from_civil 2025 6 12,
          end_date = days_from_civil 2025 6 5\<rparr>,
         \<lparr>bid = 1, user = None, resource = ''hall'', start_date = days_from_civil 2025 6 10,
          end_date = days_from_civil 2025 6 11\<rparr>,
         \<lparr>bid = 2, user = None, resource = ''hall'', start_date = days_from_civil 2025 6 13,
          end_date = days_from_civil 2025 6 14\<rparr>])))))"
  by code_simp

section \<open>No mutation without a commit\<close>

text \<open>
  C9. Unless the call returns the success response, the booking collection after the call
  is the collection before it: this covers every exception raised and the Conflicted
  response.
\<close>

theorem C9_no_commit_no_mutation:
  assumes "\<forall>m i. fst (book_resource today utc_offset self db data) \<noteq> Inr (Success m i)"
  shows "snd (book_resource today utc_offset self db data) = db"
  using assms book_resource_outcome [of today utc_offset self db data] by auto

theorem C9_no_commit_no_mutation_witness:
  "snd (book_resource (days_from_civil 2025 5 1) 0 Services_init
     [\<lparr>bid = 0, user = None, resource = ''hall'', start_date = days_from_civil 2025 6 1,
       end_date = days_from_civil 2025 6 5\<rparr>]
     \<lparr>data_resource = ''hall'', data_start_date = Some (days_from_civil 2025 6 4),
      data_end_date = Some (days_from_civil 2025 6 10)\<rparr>)
   = [\<lparr>bid = 0, user = None, resource = ''hall'', start_date = days_from_civil 2025 6 1,
       end_date = days_from_civil 2025 6 5\<rparr>]"
proof (rule C9_no_commit_no_mutation)
  have "fst (book_resource (days_from_civil 2025 5 1) 0 Services_init
     [\<lparr>bid = 0, user = None, resource = ''hall'', start_date = days_from_civil 2025 6 1,
       end_date = days_from_civil 2025 6 5\<rparr>]
     \<lparr>data_resource = ''hall'', data_start_date = Some (days_from_civil 2025 6 4),
      data_end_date = Some (days_from_civil 2025 6 10)\<rparr>)
    = Inr (Conflicted
        ''1 Conflicts found! These are the available timeframes. Beyond these, there are no open reservations.''
        [])"
    by code_simp
  then show "\<forall>m i. fst (book_resource (days_from_civil 2025 5 1) 0 Services_init
     [\<lparr>bid = 0, user = None, resource = ''hall'', start_date = days_from_civil 2025 6 1,
       end_date = days_from_civil 2025 6 5\<rparr>]
     \<lparr>data_resource = ''hall'', data_start_date = Some (days_from_civil 2025 6 4),
      data_end_date = Some (days_from_civil 2025 6 10)\<rparr>) \<noteq> Inr (Success m i)"
    by simp
qed

section \<open>The principal of a reservation\<close>

lemma list_bookings_holds_commit:
  assumes ok: "fst (book_resource today utc_offset self db data) = Inr (Success m i)"
    and ls: "list_bookings ObjectId today self (snd (book_resource today utc_offset self db data))
               = Inr ds"
  shows "convert_json (last (snd (book_resource today utc_offset self db data))) \<in> set ds"
proof -
  from ok have "book_resource today utc_offset self db data =
      (Inr (Success m i), snd (book_resource today utc_offset self db data))"
    by (simp add: prod_eq_iff)
  from book_resource_Success [OF this] obtain new_start new_end where
    e: "today \<le> new_end" and
    db': "snd (book_resource today utc_offset self db data)
            = db @ [save self (data_resource data) new_start new_end db]"
    by blast
  let ?new = "save self (data_resource data) new_start new_end db"
  have u: "user ?new = user_id self" and en: "end_date ?new = new_end"
    by (simp_all add: save_def)
  show ?thesis
  proof (cases "user_id self")
    case None
    with ls u e en show ?thesis
      unfolding db' by (auto simp add: list_bookings_def)
  next
    case (Some uid)
    with ls obtain oid where "ObjectId uid = Some oid"
      by (auto simp add: list_bookings_def split: option.splits)
    with Some ls u e en show ?thesis
      unfolding db' by (auto simp add: list_bookings_def same_user_def)
  qed
qed

text \<open>
  C10, as the code has it. A new \<open>Services\<close> instance holds no user id. After any sequence
  of session lookups on it, the instance holds the id assigned by the last lookup that
  assigned one, that is, the last one that read a non-empty, decodable value for its token
  from the store, whether or not the lookup then returned a user; with no such lookup it
  still holds none. A commit persists the id the instance holds as the reservation's user.
  The listing selects by the same id: the reservations without a user when none is held,
  those whose user is the same object id when the held id is an object id, and a
  validation error otherwise; after a commit, a listing that succeeds holds the new
  reservation.
\<close>

theorem C10_hidden_principal:
  "user_id Services_init = None
   \<and> user_id (fold (\<lambda>(r, sid) self.
                 snd (get_user_from_session_id decode ObjectId r users self sid))
               calls Services_init) =
       (if List.map_filter (assigned_user_id decode) calls = [] then None
        else Some (last (List.map_filter (assigned_user_id decode) calls)))
   \<and> (fst (book_resource today utc_offset self db data) = Inr (Success m i) \<longrightarrow>
        butlast (snd (book_resource today utc_offset self db data)) = db
      \<and> snd (book_resource today utc_offset self db data) \<noteq> []
      \<and> user (last (snd (book_resource today utc_offset self db data))) = user_id self)
   \<and> (user_id self = None \<longrightarrow>
        list_bookings ObjectId today self db =
          Inr (map convert_json [b \<leftarrow> db. user b = None \<and> today \<le> end_date b]))
   \<and> (user_id self = Some uid \<and> ObjectId uid = Some oid \<longrightarrow>
        list_bookings ObjectId today self db =
          Inr (map convert_json
                 [b \<leftarrow> db. (case user b of None \<Rightarrow> False | Some u \<Rightarrow> ObjectId u = Some oid)
                            \<and> today \<le> end_date b]))
   \<and> (user_id self = Some uid \<and> ObjectId uid = None \<longrightarrow>
        list_bookings ObjectId today self db = Inl ValidationError)
   \<and> (fst (book_resource today utc_offset self db data) = Inr (Success m i)
        \<and> list_bookings ObjectId today self (snd (book_resource today utc_offset self db data))
            = Inr ds \<longrightarrow>
        convert_json (last (snd (book_resource today utc_offset self db data))) \<in> set ds)"
proof -
  have 1: "user_id Services_init = None" by (simp add: Services_init_def)
  have 2: "user_id (fold (\<lambda>(r, sid) self.
                 snd (get_user_from_session_id decode ObjectId r users self sid))
               calls Services_init) =
       (if List.map_filter (assigned_user_id decode) calls = [] then None
        else Some (last (List.map_filter (assigned_user_id decode) calls)))"
    using lookups_user_id [of decode ObjectId users calls Services_init]
    by (simp add: Services_init_def)
  have 3: "fst (book_resource today utc_offset self db data) = Inr (Success m i) \<longrightarrow>
        butlast (snd (book_resource today utc_offset self db data)) = db
      \<and> snd (book_resource today utc_offset self db data) \<noteq> []
      \<and> user (last (snd (book_resource today utc_offset self db data))) = user_id self"
    using book_resource_Success
      [of today utc_offset self db data m i "snd (book_resource today utc_offset self db data)"]
    by (auto simp add: save_def prod_eq_iff)
  have 4: "user_id self = None \<longrightarrow>
        list_bookings ObjectId today self db =
          Inr (map convert_json [b \<leftarrow> db. user b = None \<and> today \<le> end_date b])"
    by (simp add: list_bookings_def)
  have 5: "user_id self = Some uid \<and> ObjectId uid = Some oid \<longrightarrow>
        list_bookings ObjectId today self db =
          Inr (map convert_json
                 [b \<leftarrow> db. (case user b of None \<Rightarrow> False | Some u \<Rightarrow> ObjectId u = Some oid)
                            \<and> today \<le> end_date b])"
    by (simp add: list_bookings_def same_user_def)
  have 6: "user_id self = Some uid \<and> ObjectId uid = None \<longrightarrow>
        list_bookings ObjectId today self db = Inl ValidationError"
    by (simp add: list_bookings_def)
  have 7: "fst (book_resource today utc_offset self db data) = Inr (Success m i)
        \<and> list_bookings ObjectId today self (snd (book_resource today utc_offset self db data))
            = Inr ds \<longrightarrow>
        convert_json (last (snd (book_resource today utc_offset self db data))) \<in> set ds"
    using list_bookings_holds_commit by blast
  from 1 2 3 4 5 6 7 show ?thesis by blast
qed

text \<open>
  With the same store, lookups of \<open>s1\<close>, \<open>s2\<close> and an unknown session leave the id of
  \<open>s2\<close> on the instance. A booking made while an id is held is stored for that id. Of two
  stored reservations, one without a user and one of the first user, the listing returns
  the first on a new instance and the second for the first user; it raises for a held id
  that is no object id. A reservation just committed is listed.
\<close>

theorem C10_hidden_principal_witness:
  "user_id (fold (\<lambda>(r, sid) self.
              snd (get_user_from_session_id Some hex_object_id r
                     (map_of [(''64b7f1a2c3d4e5f601234567'', ''alice'')]) self sid))
      [((map_of [(''auth_s1'', ''64b7f1a2c3d4e5f601234567''), (''auth_s2'', ''64b7f1a2c3d4e5f6089abcde'')]), ''s1''),
      ((map_of [(''auth_s1'', ''64b7f1a2c3d4e5f601234567''), (''auth_s2'', ''64b7f1a2c3d4e5f6089abcde'')]), ''s2''),
      ((map_of [(''auth_s1'', ''64b7f1a2c3d4e5f601234567''), (''auth_s2'', ''64b7f1a2c3d4e5f6089abcde'')]), ''s3'')]
      Services_init) = Some ''64b7f1a2c3d4e5f6089abcde''
   \<and> user (last (snd (book_resource (days_from_civil 2025 5 1) 0 \<lparr>user_id = Some ''64b7f1a2c3d4e5f601234567''\<rparr> []
      \<lparr>data_resource = ''hall'', data_start_date = Some (days_from_civil 2025 6 1),
        data_end_date = Some (days_from_civil 2025 6 5)\<rparr>))) = Some ''64b7f1a2c3d4e5f601234567''
   \<and> list_bookings hex_object_id (days_from_civil 2025 5 1) Services_init
      [\<lparr>bid = 0, user = None, resource = ''hall'',
        start_date = days_from_civil 2025 6 1, end_date = days_from_civil 2025 6 5\<rparr>,
      \<lparr>bid = 1, user = Some ''64b7f1a2c3d4e5f601234567'', resource = ''hall'',
        start_date = days_from_civil 2025 6 7, end_date = days_from_civil 2025 6 9\<rparr>]
     = Inr (map convert_json [\<lparr>bid = 0, user = None, resource = ''hall'',
        start_date = days_from_civil 2025 6 1, end_date = days_from_civil 2025 6 5\<rparr>])
   \<and> list_bookings hex_object_id (days_from_civil 2025 5 1) \<lparr>user_id = Some ''64b7f1a2c3d4e5f601234567''\<rparr>
      [\<lparr>bid = 0, user = None, resource = ''hall'',
        start_date = days_from_civil 2025 6 1, end_date = days_from_civil 2025 6 5\<rparr>,
      \<lparr>bid = 1, user = Some ''64b7f1a2c3d4e5f601234567'', resource = ''hall'',
        start_date = days_from_civil 2025 6 7, end_date = days_from_civil 2025 6 9\<rparr>]
     = Inr (map convert_json [\<lparr>bid = 1, user = Some ''64b7f1a2c3d4e5f601234567'', resource = ''hall'',
        start_date = days_from_civil 2025 6 7, end_date = days_from_civil 2025 6 9\<rparr>])
   \<and> list_bookings hex_object_id (days_from_civil 2025 5 1) \<lparr>user_id = Some ''u1''\<rparr>
      [\<lparr>bid = 0, user = None, resource = ''hall'',
        start_date = days_from_civil 2025 6 1, end_date = days_from_civil 2025 6 5\<rparr>,
      \<lparr>bid = 1, user = Some ''64b7f1a2c3d4e5f601234567'', resource = ''hall'',
        start_date = days_from_civil 2025 6 7, end_date = days_from_civil 2025 6 9\<rparr>]
     = Inl ValidationError
   \<and> convert_json (last (snd (book_resource (days_from_civil 2025 5 1) 0 \<lparr>user_id = Some ''64b7f1a2c3d4e5f601234567''\<rparr> []
      \<lparr>data_resource = ''hall'', data_start_date = Some (days_from_civil 2025 6 1),
        data_end_date = Some (days_from_civil 2025 6 5)\<rparr>)))
     \<in> set (map convert_json [\<lparr>bid = 0, user = Some ''64b7f1a2c3d4e5f601234567'', resource = ''hall'',
        start_date = days_from_civil 2025 6 1, end_date = days_from_civil 2025 6 5\<rparr>])"
proof -
  let ?users = "(map_of [(''64b7f1a2c3d4e5f601234567'', ''alice'')])"
  let ?calls = "[((map_of [(''auth_s1'', ''64b7f1a2c3d4e5f601234567''), (''auth_s2'', ''64b7f1a2c3d4e5f6089abcde'')]), ''s1''),
      ((map_of [(''auth_s1'', ''64b7f1a2c3d4e5f601234567''), (''auth_s2'', ''64b7f1a2c3d4e5f6089abcde'')]), ''s2''),
      ((map_of [(''auth_s1'', ''64b7f1a2c3d4e5f601234567''), (''auth_s2'', ''64b7f1a2c3d4e5f6089abcde'')]), ''s3'')]"
  let ?today = "(days_from_civil 2025 5 1)"
  let ?data = "\<lparr>data_resource = ''hall'', data_start_date = Some (days_from_civil 2025 6 1),
        data_end_date = Some (days_from_civil 2025 6 5)\<rparr>"
  let ?db = "[\<lparr>bid = 0, user = None, resource = ''hall'',
        start_date = days_from_civil 2025 6 1, end_date = days_from_civil 2025 6 5\<rparr>,
      \<lparr>bid = 1, user = Some ''64b7f1a2c3d4e5f601234567'', resource = ''hall'',
        start_date = days_from_civil 2025 6 7, end_date = days_from_civil 2025 6 9\<rparr>]"
  let ?self = "\<lparr>user_id = Some ''64b7f1a2c3d4e5f601234567''\<rparr>"
  let ?id = "''64b7f1a2c3d4e5f601234567''"
  have ids: "(if List.map_filter (assigned_user_id Some) ?calls = [] then None
        else Some (last (List.map_filter (assigned_user_id Some) ?calls))) = Some ''64b7f1a2c3d4e5f6089abcde''"
    by (simp add: assigned_user_id_def List.map_filter_def)
  have booked: "fst (book_resource ?today 0 ?self [] ?data) = Inr (Success ''Booking successful'' 0)"
    by code_simp
  have held: "user_id ?self = Some ?id \<and> hex_object_id ?id = Some ?id"
    by code_simp
  have held_none: "user_id Services_init = None"
    by code_simp
  have held_bad: "user_id \<lparr>user_id = Some ''u1''\<rparr> = Some ''u1'' \<and> hex_object_id ''u1'' = None"
    by code_simp
  have sel_none: "[b \<leftarrow> ?db. user b = None \<and> ?today \<le> end_date b]
                    = [\<lparr>bid = 0, user = None, resource = ''hall'',
        start_date = days_from_civil 2025 6 1, end_date = days_from_civil 2025 6 5\<rparr>]"
    by code_simp
  have sel_id: "[b \<leftarrow> ?db. (case user b of None \<Rightarrow> False | Some u \<Rightarrow> hex_object_id u = Some ?id)
                            \<and> ?today \<le> end_date b]
                    = [\<lparr>bid = 1, user = Some ''64b7f1a2c3d4e5f601234567'', resource = ''hall'',
        start_date = days_from_civil 2025 6 7, end_date = days_from_civil 2025 6 9\<rparr>]"
    by code_simp
  have listed: "list_bookings hex_object_id ?today ?self (snd (book_resource ?today 0 ?self [] ?data))
                  = Inr (map convert_json [\<lparr>bid = 0, user = Some ''64b7f1a2c3d4e5f601234567'', resource = ''hall'',
        start_date = days_from_civil 2025 6 1, end_date = days_from_civil 2025 6 5\<rparr>])"
    by code_simp
  note trace = C10_hidden_principal [where decode = Some and ObjectId = hex_object_id
      and users = ?users and calls = ?calls]
  note commit = C10_hidden_principal [where decode = Some and ObjectId = hex_object_id
      and users = ?users and calls = "[]" and today = ?today and utc_offset = 0
      and self = ?self and db = "[]" and data = ?data and m = "''Booking successful''" and i = 0
      and ds = "map convert_json [\<lparr>bid = 0, user = Some ''64b7f1a2c3d4e5f601234567'', resource = ''hall'',
        start_date = days_from_civil 2025 6 1, end_date = days_from_civil 2025 6 5\<rparr>]"]
  note list_none = C10_hidden_principal [where decode = Some and ObjectId = hex_object_id
      and users = ?users and calls = "[]" and today = ?today and self = Services_init
      and db = ?db]
  note list_id = C10_hidden_principal [where decode = Some and ObjectId = hex_object_id
      and users = ?users and calls = "[]" and today = ?today and self = ?self
      and db = ?db and uid = ?id and oid = ?id]
  note list_bad = C10_hidden_principal [where decode = Some and ObjectId = hex_object_id
      and users = ?users and calls = "[]" and today = ?today
      and self = "\<lparr>user_id = Some ''u1''\<rparr>" and db = ?db and uid = "''u1''"]
  from trace have 1: "user_id (fold (\<lambda>(r, sid) self.
              snd (get_user_from_session_id Some hex_object_id r ?users self sid))
              ?calls Services_init) = Some ''64b7f1a2c3d4e5f6089abcde''"
    unfolding ids by blast
  from commit booked
  have "user (last (snd (book_resource ?today 0 ?self [] ?data))) = user_id ?self"
    by blast
  then have 2: "user (last (snd (book_resource ?today 0 ?self [] ?data))) = Some ?id"
    by simp
  from list_none held_none
  have "list_bookings hex_object_id ?today Services_init ?db
          = Inr (map convert_json [b \<leftarrow> ?db. user b = None \<and> ?today \<le> end_date b])"
    by blast
  then have 3: "list_bookings hex_object_id ?today Services_init ?db
          = Inr (map convert_json [\<lparr>bid = 0, user = None, resource = ''hall'',
        start_date = days_from_civil 2025 6 1, end_date = days_from_civil 2025 6 5\<rparr>])"
    unfolding sel_none .
  from list_id held
  have "list_bookings hex_object_id ?today ?self ?db
          = Inr (map convert_json
                 [b \<leftarrow> ?db. (case user b of None \<Rightarrow> False | Some u \<Rightarrow> hex_object_id u = Some ?id)
                            \<and> ?today \<le> end_date b])"
    by blast
  then have 4: "list_bookings hex_object_id ?today ?self ?db
          = Inr (map convert_json [\<lparr>bid = 1, user = Some ''64b7f1a2c3d4e5f601234567'', resource = ''hall'',
        start_date = days_from_civil 2025 6 7, end_date = days_from_civil 2025 6 9\<rparr>])"
    unfolding sel_id .
  from list_bad held_bad
  have 5: "list_bookings hex_object_id ?today \<lparr>user_id = Some ''u1''\<rparr> ?db = Inl ValidationError"
    by blast
  from commit booked listed
  have 6: "convert_json (last (snd (book_resource ?today 0 ?self [] ?data)))
            \<in> set (map convert_json [\<lparr>bid = 0, user = Some ''64b7f1a2c3d4e5f601234567'', resource = ''hall'',
        start_date = days_from_civil 2025 6 1, end_date = days_from_civil 2025 6 5\<rparr>])"
    by blast
  from 1 2 3 4 5 6 show ?thesis by blast
qed

text \<open>
  The store maps the session \<open>s1\<close> to the id of a user that exists and the session \<open>s2\<close>
  to the id of a user that does not. The lookup of \<open>s1\<close> returns the user; the lookup of
  \<open>s2\<close> after it returns \<open>None\<close>. A booking then made is stored for the id of \<open>s2\<close>, not
  for the user of the last lookup that succeeded.
\<close>

theorem C10_failed_lookup_replaces_principal:
  "fst (get_user_from_session_id Some hex_object_id
        (map_of [(''auth_s1'', ''64b7f1a2c3d4e5f601234567''), (''auth_s2'', ''64b7f1a2c3d4e5f6089abcde'')])
        (map_of [(''64b7f1a2c3d4e5f601234567'', ''alice'')]) Services_init ''s1'') = Inr (Some ''alice'')
   \<and> fst (get_user_from_session_id Some hex_object_id
        (map_of [(''auth_s1'', ''64b7f1a2c3d4e5f601234567''), (''auth_s2'', ''64b7f1a2c3d4e5f6089abcde'')])
        (map_of [(''64b7f1a2c3d4e5f601234567'', ''alice'')])
        (snd (get_user_from_session_id Some hex_object_id
        (map_of [(''auth_s1'', ''64b7f1a2c3d4e5f601234567''), (''auth_s2'', ''64b7f1a2c3d4e5f6089abcde'')])
        (map_of [(''64b7f1a2c3d4e5f601234567'', ''alice'')]) Services_init ''s1'')) ''s2'') = Inr None
   \<and> snd (book_resource (days_from_civil 2025 5 1) 0
       (snd (get_user_from_session_id Some hex_object_id
        (map_of [(''auth_s1'', ''64b7f1a2c3d4e5f601234567''), (''auth_s2'', ''64b7f1a2c3d4e5f6089abcde'')])
        (map_of [(''64b7f1a2c3d4e5f601234567'', ''alice'')])
        (snd (get_user_from_session_id Some hex_object_id
        (map_of [(''auth_s1'', ''64b7f1a2c3d4e5f601234567''), (''auth_s2'', ''64b7f1a2c3d4e5f6089abcde'')])
        (map_of [(''64b7f1a2c3d4e5f601234567'', ''alice'')]) Services_init ''s1'')) ''s2''))
       []
       \<lparr>data_resource = ''hall'', data_start_date = Some (days_from_civil 2025 6 1),
        data_end_date = Some (days_from_civil 2025 6 5)\<rparr>)
     = [\<lparr>bid = 0, user = Some ''64b7f1a2c3d4e5f6089abcde'', resource = ''hall'',
        start_date = days_from_civil 2025 6 1, end_date = days_from_civil 2025 6 5\<rparr>]"
  by code_simp

end
